theory Spec2Isabelle
  imports Complex_Main "HOL-Library.Sublist"
begin

text \<open>
  A model of the floor-plan analyser: the box-to-line heuristic and the wall extractor of
  \<open>processing/wall_extractor.py\<close>, file discovery of \<open>utils/file_utils.py\<close>, the
  colour conversion of \<open>utils/image_utils.py\<close>, the result schema of
  \<open>models/schemas.py\<close> and the orchestrator of \<open>main.py\<close>.  The definitions come
  first, the properties proved of them follow.
\<close>

section \<open>Python values and exceptions\<close>

text \<open>
  The exceptions that the modelled code can raise or catch; \<open>ValidationError\<close> is
  the one of the schema library, \<open>CvError\<close> the one of the image library.  A computation
  that may raise returns \<open>exn + 'a\<close>, with \<open>Inl\<close> for the exception.
\<close>

datatype exn =
    TypeError
  | ValueError
  | OverflowError
  | IndexError
  | ValidationError
  | OSError
  | CvError

text \<open>Sequencing: the second computation runs on the value of the first, unless that raised.\<close>

definition bind_exn :: "exn + 'a \<Rightarrow> ('a \<Rightarrow> exn + 'b) \<Rightarrow> exn + 'b" where
  "bind_exn m f = (case m of Inl e \<Rightarrow> Inl e | Inr v \<Rightarrow> f v)"

text \<open>
  A Python \<open>float\<close>.  A finite value is modelled by the rational number it denotes, the
  two infinities and the not-a-number value are constructors of their own: \<open>float()\<close>
  can produce them and \<open>int()\<close> raises on them.  Rounding to 53 bits and the overflow of
  finite arithmetic are outside the model, and so is the sign of zero.
\<close>

datatype pyfloat = Fin rat | PInf | NInf | NaN

fun fneg :: "pyfloat \<Rightarrow> pyfloat" where
  "fneg (Fin a) = Fin (- a)"
| "fneg PInf = NInf"
| "fneg NInf = PInf"
| "fneg NaN = NaN"

fun fadd :: "pyfloat \<Rightarrow> pyfloat \<Rightarrow> pyfloat" where
  "fadd NaN _ = NaN"
| "fadd _ NaN = NaN"
| "fadd (Fin a) (Fin b) = Fin (a + b)"
| "fadd PInf NInf = NaN"
| "fadd NInf PInf = NaN"
| "fadd PInf _ = PInf"
| "fadd _ PInf = PInf"
| "fadd NInf _ = NInf"
| "fadd _ NInf = NInf"

definition fsub :: "pyfloat \<Rightarrow> pyfloat \<Rightarrow> pyfloat" where
  "fsub a b = fadd a (fneg b)"

text \<open>The two operations with the integer literal 2: \<open>v / 2\<close> and \<open>2 * v\<close>.\<close>

fun fhalf :: "pyfloat \<Rightarrow> pyfloat" where
  "fhalf (Fin a) = Fin (a / 2)"
| "fhalf v = v"

fun fdouble :: "pyfloat \<Rightarrow> pyfloat" where
  "fdouble (Fin a) = Fin (2 * a)"
| "fdouble v = v"

text \<open>Comparisons: every comparison with not-a-number is false.\<close>

fun flt :: "pyfloat \<Rightarrow> pyfloat \<Rightarrow> bool" where
  "flt NaN _ = False"
| "flt _ NaN = False"
| "flt (Fin a) (Fin b) = (a < b)"
| "flt _ NInf = False"
| "flt NInf _ = True"
| "flt PInf _ = False"
| "flt _ PInf = True"

fun fge :: "pyfloat \<Rightarrow> pyfloat \<Rightarrow> bool" where
  "fge NaN _ = False"
| "fge _ NaN = False"
| "fge a b = (\<not> flt a b)"

text \<open>
  \<open>int(v)\<close> on a float truncates toward zero; it raises \<open>OverflowError\<close> on an infinity
  and \<open>ValueError\<close> on not-a-number.
\<close>

fun py_int :: "pyfloat \<Rightarrow> exn + int" where
  "py_int (Fin a) = Inr (if a < 0 then - \<lfloor>- a\<rfloor> else \<lfloor>a\<rfloor>)"
| "py_int PInf = Inl OverflowError"
| "py_int NInf = Inl OverflowError"
| "py_int NaN = Inl ValueError"

section \<open>The box-to-line heuristic\<close>

type_synonym point = "int \<times> int"

text \<open>
  \<open>bbox_to_wall_line\<close> of \<open>processing/wall_extractor.py\<close>.  The four corner
  conversions run in the order of the source, so the first one that raises decides the
  exception.
\<close>

definition bbox_to_wall_line ::
  "pyfloat \<Rightarrow> pyfloat \<Rightarrow> pyfloat \<Rightarrow> pyfloat \<Rightarrow> exn + point list" where
  "bbox_to_wall_line x y width height =
     bind_exn (py_int (fsub x (fhalf width))) (\<lambda>x1.
     bind_exn (py_int (fsub y (fhalf height))) (\<lambda>y1.
     bind_exn (py_int (fadd x (fhalf width))) (\<lambda>x2.
     bind_exn (py_int (fadd y (fhalf height))) (\<lambda>y2.
       if fge width (fdouble height) then
         (let y_mid = (y1 + y2) div 2 in Inr [(x1, y_mid), (x2, y_mid)])
       else if fge height (fdouble width) then
         (let x_mid = (x1 + x2) div 2 in Inr [(x_mid, y1), (x_mid, y2)])
       else
         Inr [(x1, y1), (x2, y1), (x2, y2), (x1, y2)]))))"

section \<open>Strings\<close>

text \<open>
  Python strings are modelled as \<open>string\<close>, with the ASCII letters as the letters
  that have a case.  \<open>lower\<close> is \<open>str.lower()\<close>, \<open>contains sub s\<close> is \<open>sub in s\<close>
  and \<open>endswith s ext\<close> is \<open>s.endswith(ext)\<close>.
\<close>

definition upper_letters :: string where
  "upper_letters = ''ABCDEFGHIJKLMNOPQRSTUVWXYZ''"

definition lower_letters :: string where
  "lower_letters = ''abcdefghijklmnopqrstuvwxyz''"


definition lower_char :: "char \<Rightarrow> char" where
  "lower_char c = (case map_of (zip upper_letters lower_letters) c of None \<Rightarrow> c | Some d \<Rightarrow> d)"

definition lower :: "string \<Rightarrow> string" where
  "lower s = map lower_char s"

fun contains :: "string \<Rightarrow> string \<Rightarrow> bool" where
  "contains sub [] = (sub = [])"
| "contains sub (c # s) = (prefix sub (c # s) \<or> contains sub s)"

definition endswith :: "string \<Rightarrow> string \<Rightarrow> bool" where
  "endswith s ext = (length ext \<le> length s \<and> drop (length s - length ext) s = ext)"

text \<open>The decimal rendering of a natural number, as \<open>str(n)\<close> and an f-string give it.\<close>

definition digit_char :: "nat \<Rightarrow> char" where
  "digit_char d = ''0123456789'' ! d"

function str_of_nat :: "nat \<Rightarrow> string" where
  "str_of_nat n = (if n < 10 then [digit_char n] else str_of_nat (n div 10) @ [digit_char (n mod 10)])"
  by pat_completeness auto
termination
  by (relation "measure (\<lambda>n. n)") auto

declare str_of_nat.simps [simp del]

definition str_of_int :: "int \<Rightarrow> string" where
  "str_of_int i = (if i < 0 then CHR ''-'' # str_of_nat (nat (- i)) else str_of_nat (nat i))"

subsection \<open>Reading a float from a string\<close>

text \<open>
  \<open>float(s)\<close> on a string follows the grammar of the language reference: surrounding
  whitespace is stripped; an optional sign is followed by \<open>inf\<close>, \<open>infinity\<close> or
  \<open>nan\<close> in any case, or by a decimal number with an optional fraction and an optional
  exponent, where single underscores may separate digits.  Anything else is a
  \<open>ValueError\<close>, here \<open>None\<close>.
\<close>

definition is_space :: "char \<Rightarrow> bool" where
  "is_space c = (c \<in> set [CHR 0x09, CHR 0x0A, CHR 0x0B, CHR 0x0C, CHR 0x0D,
                           CHR 0x1C, CHR 0x1D, CHR 0x1E, CHR 0x1F, CHR 0x20])"

definition strip :: "string \<Rightarrow> string" where
  "strip s = rev (dropWhile is_space (rev (dropWhile is_space s)))"

definition digit_val :: "char \<Rightarrow> nat option" where
  "digit_val c = map_of (zip ''0123456789'' [0, 1, 2, 3, 4, 5, 6, 7, 8, 9]) c"

text \<open>
  \<open>more_digits acc k s\<close> reads the rest of a digit part from \<open>s\<close>: digits, each
  optionally preceded by one underscore.  It returns the number read so far, starting from
  \<open>acc\<close>, the count of digits read, starting from \<open>k\<close>, and the unread rest.
\<close>

fun more_digits :: "nat \<Rightarrow> nat \<Rightarrow> string \<Rightarrow> nat \<times> nat \<times> string" where
  "more_digits acc k [] = (acc, k, [])"
| "more_digits acc k [c] =
     (case digit_val c of Some d \<Rightarrow> (10 * acc + d, Suc k, []) | None \<Rightarrow> (acc, k, [c]))"
| "more_digits acc k (c # c' # s) =
     (case digit_val c of
        Some d \<Rightarrow> more_digits (10 * acc + d) (Suc k) (c' # s)
      | None \<Rightarrow>
          (if c = CHR ''_'' then
             (case digit_val c' of
                Some d \<Rightarrow> more_digits (10 * acc + d) (Suc k) s
              | None \<Rightarrow> (acc, k, c # c' # s))
           else (acc, k, c # c' # s)))"

text \<open>A digit part starts with a digit; \<open>None\<close> when there is none.\<close>

definition digitpart :: "nat \<Rightarrow> string \<Rightarrow> (nat \<times> nat \<times> string) option" where
  "digitpart acc s =
     (case s of
        [] \<Rightarrow> None
      | c # r \<Rightarrow> (case digit_val c of None \<Rightarrow> None | Some d \<Rightarrow> Some (more_digits (10 * acc + d) 1 r)))"

definition read_sign :: "string \<Rightarrow> bool \<times> string" where
  "read_sign s =
     (case s of
        c # r \<Rightarrow> (if c = CHR ''-'' then (True, r) else if c = CHR ''+'' then (False, r) else (False, s))
      | [] \<Rightarrow> (False, s))"

text \<open>The exponent part: \<open>e\<close> or \<open>E\<close>, an optional sign, a digit part, then the end.\<close>

definition read_exponent :: "string \<Rightarrow> int option" where
  "read_exponent s =
     (case s of
        [] \<Rightarrow> Some 0
      | c # r \<Rightarrow>
          (if c = CHR ''e'' \<or> c = CHR ''E'' then
             (case read_sign r of (neg, r') \<Rightarrow>
                (case digitpart 0 r' of
                   Some (e, _, []) \<Rightarrow> Some (if neg then - int e else int e)
                 | _ \<Rightarrow> None))
           else None))"

definition scale10 :: "nat \<Rightarrow> int \<Rightarrow> rat" where
  "scale10 m e = (if 0 \<le> e then of_nat m * 10 ^ nat e else of_nat m / 10 ^ nat (- e))"

text \<open>
  \<open>number ::= [digitpart] "." digitpart | digitpart ["."]\<close>, followed by the exponent.
\<close>

definition read_number :: "string \<Rightarrow> rat option" where
  "read_number s =
     (case digitpart 0 s of
        Some (m, _, r) \<Rightarrow>
          (case r of
             c # r' \<Rightarrow>
               (if c = CHR ''.'' then
                  (case digitpart m r' of
                     Some (m', k, r'') \<Rightarrow> map_option (\<lambda>e. scale10 m' (e - int k)) (read_exponent r'')
                   | None \<Rightarrow> map_option (scale10 m) (read_exponent r'))
                else map_option (scale10 m) (read_exponent r))
           | [] \<Rightarrow> Some (of_nat m))
      | None \<Rightarrow>
          (case s of
             c # r' \<Rightarrow>
               (if c = CHR ''.'' then
                  (case digitpart 0 r' of
                     Some (m', k, r'') \<Rightarrow> map_option (\<lambda>e. scale10 m' (e - int k)) (read_exponent r'')
                   | None \<Rightarrow> None)
                else None)
           | [] \<Rightarrow> None))"

definition float_of_str :: "string \<Rightarrow> pyfloat option" where
  "float_of_str s =
     (case read_sign (strip s) of (neg, r) \<Rightarrow>
        (if lower r = ''inf'' \<or> lower r = ''infinity'' then Some (if neg then NInf else PInf)
         else if lower r = ''nan'' then Some NaN
         else map_option (\<lambda>q. Fin (if neg then - q else q)) (read_number r)))"

section \<open>Prediction values and their coercions\<close>

text \<open>
  The value of a field of a prediction, as the JSON decoder delivers it.  A list or a
  dictionary is \<open>POther r\<close>, known by its rendering \<open>r = str(v)\<close>: the extractor only
  ever applies \<open>float()\<close> and \<open>str()\<close> to a field.
\<close>

datatype pyval =
    PNone
  | PBool bool
  | PInt int
  | PFloat pyfloat
  | PStr string
  | POther string

text \<open>
  \<open>float(v)\<close>: \<open>TypeError\<close> on a value that is no number and no string,
  \<open>ValueError\<close> on a string that is no float literal.  Magnitudes beyond the range of
  a double are outside the model: an integer or a literal of any size converts to its
  value.
\<close>

fun py_float :: "pyval \<Rightarrow> exn + pyfloat" where
  "py_float PNone = Inl TypeError"
| "py_float (PBool b) = Inr (Fin (if b then 1 else 0))"
| "py_float (PInt i) = Inr (Fin (of_int i))"
| "py_float (PFloat f) = Inr f"
| "py_float (PStr s) = (case float_of_str s of None \<Rightarrow> Inl ValueError | Some f \<Rightarrow> Inr f)"
| "py_float (POther r) = Inl TypeError"

text \<open>
  The rendering of a float by \<open>str()\<close> is approximated: sign, integer part, point and
  up to 17 fractional digits; the shortest-representation algorithm and the exponent
  notation of Python are not modelled.
\<close>

fun frac_digits :: "nat \<Rightarrow> rat \<Rightarrow> string" where
  "frac_digits 0 q = []"
| "frac_digits (Suc n) q =
     (if q = 0 then []
      else (let d = nat \<lfloor>10 * q\<rfloor> in digit_char d # frac_digits n (10 * q - of_nat d)))"

fun float_str :: "pyfloat \<Rightarrow> string" where
  "float_str NaN = ''nan''"
| "float_str PInf = ''inf''"
| "float_str NInf = ''-inf''"
| "float_str (Fin q) =
     (if q < 0 then ''-'' else []) @ str_of_nat (nat \<lfloor>\<bar>q\<bar>\<rfloor>) @ ''.'' @
     (let f = frac_digits 17 (\<bar>q\<bar> - of_int \<lfloor>\<bar>q\<bar>\<rfloor>) in if f = [] then ''0'' else f)"

fun py_str :: "pyval \<Rightarrow> string" where
  "py_str PNone = ''None''"
| "py_str (PBool b) = (if b then ''True'' else ''False'')"
| "py_str (PInt i) = str_of_int i"
| "py_str (PFloat f) = float_str f"
| "py_str (PStr s) = s"
| "py_str (POther r) = r"

text \<open>
  A prediction is a dictionary from field names to values; \<open>dict_get\<close> is
  \<open>d.get(k, default)\<close>.
\<close>

type_synonym prediction = "string \<rightharpoonup> pyval"

definition dict_get :: "prediction \<Rightarrow> string \<Rightarrow> pyval \<Rightarrow> pyval" where
  "dict_get d k dflt = (case d k of None \<Rightarrow> dflt | Some v \<Rightarrow> v)"

section \<open>The wall extractor\<close>

text \<open>A wall as \<open>extract_walls\<close> emits it; \<open>ident\<close> is the entry \<open>'id'\<close>.\<close>

record wall =
  ident :: string
  points :: "point list"
  confidence :: pyfloat

text \<open>
  The state of the loop of \<open>extract_walls\<close>: the list \<open>walls\<close>, the counter
  \<open>wall_id\<close>, and the exceptions for which a warning has been logged.
\<close>

record loop_state =
  walls :: "wall list"
  wall_id :: nat
  warnings :: "exn list"

text \<open>
  The body of the \<open>try\<close> block for one prediction.  \<open>continue\<close> leaves the state as
  it is; the list and the counter change only after every conversion has succeeded.
\<close>

definition try_body :: "prediction \<Rightarrow> pyfloat \<Rightarrow> loop_state \<Rightarrow> exn + loop_state" where
  "try_body pred confidence_threshold st =
     bind_exn (py_float (dict_get pred ''confidence'' (PFloat (Fin 0)))) (\<lambda>conf.
       let class_name = lower (py_str (dict_get pred ''class'' (PStr [])))
       in if flt conf confidence_threshold then Inr st
          else if \<not> contains ''wall'' class_name then Inr st
          else
            bind_exn (py_float (dict_get pred ''x'' (PInt 0))) (\<lambda>x.
            bind_exn (py_float (dict_get pred ''y'' (PInt 0))) (\<lambda>y.
            bind_exn (py_float (dict_get pred ''width'' (PInt 0))) (\<lambda>width.
            bind_exn (py_float (dict_get pred ''height'' (PInt 0))) (\<lambda>height.
            bind_exn (bbox_to_wall_line x y width height) (\<lambda>pts.
              Inr (st\<lparr>walls := walls st @
                         [\<lparr>ident = ''w'' @ str_of_nat (wall_id st), points = pts, confidence = conf\<rparr>],
                       wall_id := wall_id st + 1\<rparr>)))))))"

text \<open>
  One iteration: the \<open>try\<close> block under \<open>except (TypeError, ValueError)\<close>, which logs
  a warning and continues.  Any other exception leaves the function.
\<close>

definition loop_body :: "prediction \<Rightarrow> pyfloat \<Rightarrow> loop_state \<Rightarrow> exn + loop_state" where
  "loop_body pred confidence_threshold st =
     (case try_body pred confidence_threshold st of
        Inr st' \<Rightarrow> Inr st'
      | Inl e \<Rightarrow>
          (if e = TypeError \<or> e = ValueError then Inr (st\<lparr>warnings := warnings st @ [e]\<rparr>)
           else Inl e))"

fun extract_walls_loop :: "prediction list \<Rightarrow> pyfloat \<Rightarrow> loop_state \<Rightarrow> exn + loop_state" where
  "extract_walls_loop [] confidence_threshold st = Inr st"
| "extract_walls_loop (pred # predictions) confidence_threshold st =
     bind_exn (loop_body pred confidence_threshold st)
       (extract_walls_loop predictions confidence_threshold)"

definition extract_walls_run :: "prediction list \<Rightarrow> pyfloat \<Rightarrow> exn + loop_state" where
  "extract_walls_run predictions confidence_threshold =
     extract_walls_loop predictions confidence_threshold \<lparr>walls = [], wall_id = 1, warnings = []\<rparr>"

definition extract_walls :: "prediction list \<Rightarrow> pyfloat \<Rightarrow> exn + wall list" where
  "extract_walls predictions confidence_threshold =
     bind_exn (extract_walls_run predictions confidence_threshold) (\<lambda>st. Inr (walls st))"

section \<open>File discovery\<close>

text \<open>
  What the file system holds at a path: nothing, something that is no directory, or a
  directory with its entries in listing order.
\<close>

datatype fs_entry = Missing | NotADirectory | Directory "string list"

type_synonym filesystem = "string \<Rightarrow> fs_entry"

text \<open>\<open>os.path.join\<close> of two components, with \<open>/\<close> as the separator.\<close>

definition path_join :: "string \<Rightarrow> string \<Rightarrow> string" where
  "path_join a b =
     (if b \<noteq> [] \<and> hd b = CHR ''/'' then b
      else if a = [] \<or> last a = CHR ''/'' then a @ b
      else a @ ''/'' @ b)"

text \<open>\<open>os.path.basename\<close>: what follows the last separator.\<close>

definition basename :: "string \<Rightarrow> string" where
  "basename p = rev (takeWhile (\<lambda>c. c \<noteq> CHR ''/'') (rev p))"

text \<open>
  \<open>os.path.splitext(p)[0]\<close>: the path without its extension.  The extension starts at
  the last dot of the last component, unless only dots precede that dot there.
\<close>

definition splitext_root :: "string \<Rightarrow> string" where
  "splitext_root p =
     (let name = basename p;
          stem = rev (drop 1 (dropWhile (\<lambda>c. c \<noteq> CHR ''.'') (rev name)))
      in if CHR ''.'' \<in> set name \<and> (\<exists>c \<in> set stem. c \<noteq> CHR ''.'')
         then take (length p - length name) p @ stem
         else p)"

text \<open>
  \<open>get_image_files\<close> of \<open>utils/file_utils.py\<close>, on a file system \<open>fs\<close>.  The
  loop over the listing keeps, in order, each name whose lowercased form ends with one of
  the extensions, joined to the directory.
\<close>

definition get_image_files :: "filesystem \<Rightarrow> string \<Rightarrow> string list option \<Rightarrow> exn + string list" where
  "get_image_files fs directory extensions =
     (let exts = (case extensions of None \<Rightarrow> [''.jpg'', ''.jpeg'', ''.png''] | Some es \<Rightarrow> es)
      in case fs directory of
           Missing \<Rightarrow> Inr []
         | NotADirectory \<Rightarrow> Inl ValueError
         | Directory names \<Rightarrow>
             Inr (map (path_join directory)
                   (filter (\<lambda>filename. \<exists>ext \<in> set exts. endswith (lower filename) ext) names)))"

text \<open>
  \<open>ensure_directory_exists\<close>: an empty path is refused; otherwise \<open>os.makedirs\<close>
  decides, and its \<open>OSError\<close> is raised again.
\<close>

definition ensure_directory_exists :: "(string \<Rightarrow> bool) \<Rightarrow> string \<Rightarrow> exn + unit" where
  "ensure_directory_exists makedirs_ok path =
     (if path = [] then Inl ValueError
      else if makedirs_ok path then Inr ()
      else Inl OSError)"

section \<open>Rasters\<close>

text \<open>
  A raster is a \<open>numpy\<close> array: a shape and a reference to a buffer of elements in
  row-major order.  The heap holds the buffers, a buffer's address is its index, and
  allocation appends a buffer, so a new address differs from every address in use.
  Elements are natural numbers; the element type of the array is not modelled.
\<close>

type_synonym addr = nat

type_synonym heap = "nat list list"

record ndarray =
  shape :: "nat list"
  buffer :: addr

definition alloc :: "heap \<Rightarrow> nat list \<Rightarrow> heap \<times> addr" where
  "alloc h d = (h @ [d], length h)"

text \<open>\<open>image.copy()\<close>: the same shape over a new buffer with the same elements.\<close>

definition ndarray_copy :: "heap \<Rightarrow> ndarray \<Rightarrow> heap \<times> ndarray" where
  "ndarray_copy h a = (case alloc h (h ! buffer a) of (h', b) \<Rightarrow> (h', a\<lparr>buffer := b\<rparr>))"

text \<open>
  \<open>cv2.cvtColor\<close> for the two conversions the program uses.  It writes its result to a
  new array.  \<open>COLOR_GRAY2BGR\<close> takes a one-channel source and repeats each element
  three times; \<open>COLOR_BGRA2BGR\<close> takes a four-channel source and keeps the first three
  elements of each pixel.  An empty source, or one with another number of channels or
  axes, is an error of the library.
\<close>

datatype conversion = COLOR_GRAY2BGR | COLOR_BGRA2BGR

definition gray_to_bgr :: "nat list \<Rightarrow> nat list" where
  "gray_to_bgr d = concat (map (\<lambda>v. [v, v, v]) d)"

fun bgra_to_bgr :: "nat list \<Rightarrow> nat list" where
  "bgra_to_bgr (b # g # r # a # rest) = b # g # r # bgra_to_bgr rest"
| "bgra_to_bgr _ = []"

definition cvtColor :: "heap \<Rightarrow> ndarray \<Rightarrow> conversion \<Rightarrow> exn + heap \<times> ndarray" where
  "cvtColor h src code =
     (let d = h ! buffer src;
          channels = (case shape src of [rows, cols] \<Rightarrow> Some 1 | [rows, cols, ch] \<Rightarrow> Some ch | _ \<Rightarrow> None);
          result = (\<lambda>d'. case alloc h d' of (h', b) \<Rightarrow>
                      Inr (h', \<lparr>shape = take 2 (shape src) @ [3], buffer = b\<rparr>))
      in if d = [] then Inl CvError
         else case code of
           COLOR_GRAY2BGR \<Rightarrow> (if channels = Some 1 then result (gray_to_bgr d) else Inl CvError)
         | COLOR_BGRA2BGR \<Rightarrow> (if channels = Some 4 then result (bgra_to_bgr d) else Inl CvError))"

text \<open>
  \<open>ensure_color_image\<close> of \<open>utils/image_utils.py\<close>.  \<open>image.shape[2]\<close> raises
  \<open>IndexError\<close> on a shape with fewer than three axes.
\<close>

definition ensure_color_image :: "heap \<Rightarrow> ndarray option \<Rightarrow> exn + heap \<times> ndarray" where
  "ensure_color_image h image' =
     (case image' of
        None \<Rightarrow> Inl ValueError
      | Some img \<Rightarrow>
          if length (shape img) = 2 then cvtColor h img COLOR_GRAY2BGR
          else if length (shape img) < 3 then Inl IndexError
          else if shape img ! 2 = 4 then cvtColor h img COLOR_BGRA2BGR
          else Inr (ndarray_copy h img))"

text \<open>\<open>get_image_dimensions\<close>: the slice \<open>image.shape[:2]\<close>.\<close>

definition get_image_dimensions :: "ndarray option \<Rightarrow> exn + nat list" where
  "get_image_dimensions image' =
     (case image' of None \<Rightarrow> Inl ValueError | Some img \<Rightarrow> Inr (take 2 (shape img)))"

text \<open>
  \<open>visualize_walls\<close> of \<open>processing/wall_extractor.py\<close>.  \<open>cv2.line\<close> draws into the
  buffer of the copy; what it draws, and whether it raises, is the parameter \<open>line\<close>, from
  the shape, the elements and the two end points to the new elements.
\<close>

type_synonym cv2_line = "nat list \<Rightarrow> nat list \<Rightarrow> point \<Rightarrow> point \<Rightarrow> exn + nat list"

fun draw_points :: "cv2_line \<Rightarrow> nat list \<Rightarrow> nat list \<Rightarrow> point list \<Rightarrow> exn + nat list" where
  "draw_points line shp d (start_point # end_point # pts) =
     bind_exn (line shp d start_point end_point) (\<lambda>d'. draw_points line shp d' (end_point # pts))"
| "draw_points line shp d pts = Inr d"

fun draw_walls :: "cv2_line \<Rightarrow> nat list \<Rightarrow> nat list \<Rightarrow> wall list \<Rightarrow> exn + nat list" where
  "draw_walls line shp d [] = Inr d"
| "draw_walls line shp d (w # ws) =
     bind_exn (draw_points line shp d (points w)) (\<lambda>d'. draw_walls line shp d' ws)"

definition visualize_walls ::
  "cv2_line \<Rightarrow> heap \<Rightarrow> ndarray option \<Rightarrow> wall list \<Rightarrow> exn + heap \<times> ndarray" where
  "visualize_walls line h image' ws =
     (case image' of
        None \<Rightarrow> Inl ValueError
      | Some img \<Rightarrow>
          (case ndarray_copy h img of (h', vis_image) \<Rightarrow>
             bind_exn (draw_walls line (shape vis_image) (h' ! buffer vis_image) ws) (\<lambda>d.
               Inr (h'[buffer vis_image := d], vis_image))))"

section \<open>The result record and its serialisation\<close>

text \<open>A JSON document, as \<open>json.dump\<close> receives it from \<open>model_dump()\<close>.\<close>

datatype json =
    JNull
  | JInt int
  | JFloat pyfloat
  | JStr string
  | JArr "json list"
  | JObj "(string \<times> json) list"

text \<open>
  The models of \<open>models/schemas.py\<close>.  \<open>Metadata\<close> declares the two fields \<open>source\<close>
  and \<open>shape\<close>.  A model is built from a dictionary by validation: each declared field
  is read and checked against its type, and, in the default configuration of
  \<open>BaseModel\<close>, which the schemas do not change, a key that is no declared field is
  ignored.
\<close>

record Metadata =
  meta_source :: string
  meta_shape :: "int list"

record FloorPlanResult =
  meta :: Metadata
  result_walls :: "wall list"

fun ints_of :: "json list \<Rightarrow> int list option" where
  "ints_of [] = Some []"
| "ints_of (JInt i # js) = map_option ((#) i) (ints_of js)"
| "ints_of (j # js) = None"

definition Metadata_validate :: "(string \<times> json) list \<Rightarrow> exn + Metadata" where
  "Metadata_validate d =
     (case map_of d ''source'' of
        Some (JStr s) \<Rightarrow>
          (case map_of d ''shape'' of
             Some (JArr xs) \<Rightarrow>
               (case ints_of xs of
                  Some shp \<Rightarrow> Inr \<lparr>meta_source = s, meta_shape = shp\<rparr>
                | None \<Rightarrow> Inl ValidationError)
           | _ \<Rightarrow> Inl ValidationError)
      | _ \<Rightarrow> Inl ValidationError)"

text \<open>
  \<open>FloorPlanResult(meta=..., walls=...)\<close>.  The walls come from \<open>extract_walls\<close> and
  have the types that \<open>Wall\<close> declares, so their validation keeps them as they are.
\<close>

definition FloorPlanResult_init :: "(string \<times> json) list \<Rightarrow> wall list \<Rightarrow> exn + FloorPlanResult" where
  "FloorPlanResult_init meta_dict ws =
     bind_exn (Metadata_validate meta_dict) (\<lambda>m. Inr \<lparr>meta = m, result_walls = ws\<rparr>)"

text \<open>\<open>model_dump()\<close>: a dictionary of the declared fields, nested models included.\<close>

definition Metadata_dump :: "Metadata \<Rightarrow> json" where
  "Metadata_dump m =
     JObj [(''source'', JStr (meta_source m)), (''shape'', JArr (map JInt (meta_shape m)))]"

definition Wall_dump :: "wall \<Rightarrow> json" where
  "Wall_dump w =
     JObj [(''id'', JStr (ident w)),
           (''points'', JArr (map (\<lambda>(x, y). JArr [JInt x, JInt y]) (points w))),
           (''confidence'', JFloat (confidence w))]"

definition model_dump :: "FloorPlanResult \<Rightarrow> json" where
  "model_dump r =
     JObj [(''meta'', Metadata_dump (meta r)), (''walls'', JArr (map Wall_dump (result_walls r)))]"

section \<open>The orchestrator\<close>

text \<open>The settings that the orchestrator reads.\<close>

record settings =
  MODEL_ID :: string
  INPUT_DIR :: string
  OUTPUT_DIR :: string
  CONFIDENCE_THRESHOLD :: pyfloat

definition debug_output_path :: "settings \<Rightarrow> string" where
  "debug_output_path s = path_join (OUTPUT_DIR s) ''debug''"

text \<open>
  The surroundings of a run, as the outcome of each external operation: the file
  system that is listed, whether \<open>os.makedirs\<close> succeeds, what \<open>read_image\<close> returns
  for a path (shape and elements, or nothing when no decoder succeeds), what the
  inference client returns or raises for a path (the list under \<open>predictions\<close>), what
  \<open>cv2.line\<close> does, whether a file can be opened for writing, and what \<open>cv2.imwrite\<close>
  returns or raises.
\<close>

record env =
  env_fs :: filesystem
  env_makedirs :: "string \<Rightarrow> bool"
  env_read_image :: "string \<Rightarrow> (nat list \<times> nat list) option"
  env_infer_image :: "string \<Rightarrow> exn + prediction list"
  env_line :: cv2_line
  env_open :: "string \<Rightarrow> bool"
  env_imwrite :: "string \<Rightarrow> exn + bool"

text \<open>
  What a run changes: the heap of raster buffers and the files written, in order.  A
  call returns the state it leaves and, when it ends by an exception, that exception.
\<close>

datatype file_content = JsonDoc json | PngImage "nat list" "nat list"

record world =
  w_heap :: heap
  w_files :: "(string \<times> file_content) list"

text \<open>
  The last part of \<open>process_single_image\<close>: the result record, the JSON file under
  \<open>except IOError\<close>, and the debug image under \<open>except Exception\<close>.
\<close>

definition save_result ::
  "settings \<Rightarrow> env \<Rightarrow> string \<Rightarrow> nat \<Rightarrow> nat \<Rightarrow> wall list \<Rightarrow> ndarray \<Rightarrow> world \<Rightarrow> world \<times> exn option" where
  "save_result s e image_path height width ws visualization_image w =
     (let file_name = splitext_root (basename image_path) in
      case FloorPlanResult_init
             [(''source'', JStr (basename image_path)),
              (''shape'', JArr [JInt (int height), JInt (int width)]),
              (''model_id'', JStr (MODEL_ID s))] ws of
        Inl ex \<Rightarrow> (w, Some ex)
      | Inr result \<Rightarrow>
          (let output_path = path_join (OUTPUT_DIR s) (file_name @ ''.json'');
               w' = (if env_open e output_path
                     then w\<lparr>w_files := w_files w @ [(output_path, JsonDoc (model_dump result))]\<rparr>
                     else w);
               debug_path = path_join (debug_output_path s) (file_name @ ''_vis.png'')
           in case env_imwrite e debug_path of
                Inr True \<Rightarrow>
                  (w'\<lparr>w_files := w_files w' @
                        [(debug_path, PngImage (shape visualization_image)
                                        (w_heap w' ! buffer visualization_image))]\<rparr>, None)
              | _ \<Rightarrow> (w', None)))"

text \<open>
  \<open>process_single_image\<close> of \<open>main.py\<close>.  The calls outside a \<open>try\<close> statement pass
  their exception on to the caller.
\<close>

definition process_single_image :: "settings \<Rightarrow> env \<Rightarrow> string \<Rightarrow> world \<Rightarrow> world \<times> exn option" where
  "process_single_image s e image_path w =
     (case env_read_image e image_path of
        None \<Rightarrow> (w, None)
      | Some (shp, d) \<Rightarrow>
          (case alloc (w_heap w) d of (h0, b) \<Rightarrow>
             (let img = \<lparr>shape = shp, buffer = b\<rparr> in
              case ensure_color_image h0 (Some img) of
                Inl ex \<Rightarrow> (w\<lparr>w_heap := h0\<rparr>, Some ex)
              | Inr (h1, visualization_image) \<Rightarrow>
                  (case get_image_dimensions (Some img) of
                     Inl ex \<Rightarrow> (w\<lparr>w_heap := h1\<rparr>, Some ex)
                   | Inr dims \<Rightarrow>
                       (case dims of
                          [height, width] \<Rightarrow>
                            (case env_infer_image e image_path of
                               Inl ex \<Rightarrow> (w\<lparr>w_heap := h1\<rparr>, None)
                             | Inr predictions \<Rightarrow>
                                 (case extract_walls predictions (CONFIDENCE_THRESHOLD s) of
                                    Inl ex \<Rightarrow> (w\<lparr>w_heap := h1\<rparr>, Some ex)
                                  | Inr ws \<Rightarrow>
                                      (case visualize_walls (env_line e) h1 (Some visualization_image) ws of
                                         Inl ex \<Rightarrow> (w\<lparr>w_heap := h1\<rparr>, Some ex)
                                       | Inr (h2, vis) \<Rightarrow>
                                           save_result s e image_path height width ws vis
                                             (w\<lparr>w_heap := h2\<rparr>))))
                        | _ \<Rightarrow> (w\<lparr>w_heap := h1\<rparr>, Some ValueError))))))"

text \<open>The loop of \<open>main\<close> over the files found, and \<open>main\<close> itself.\<close>

fun process_images :: "settings \<Rightarrow> env \<Rightarrow> string list \<Rightarrow> world \<Rightarrow> world \<times> exn option" where
  "process_images s e [] w = (w, None)"
| "process_images s e (image_path # image_files) w =
     (case process_single_image s e image_path w of
        (w', Some ex) \<Rightarrow> (w', Some ex)
      | (w', None) \<Rightarrow> process_images s e image_files w')"

definition main :: "settings \<Rightarrow> env \<Rightarrow> world \<Rightarrow> world \<times> exn option" where
  "main s e w =
     (case ensure_directory_exists (env_makedirs e) (OUTPUT_DIR s) of
        Inl ex \<Rightarrow> (w, Some ex)
      | Inr u \<Rightarrow>
          (case ensure_directory_exists (env_makedirs e) (debug_output_path s) of
             Inl ex \<Rightarrow> (w, Some ex)
           | Inr u' \<Rightarrow>
               (case get_image_files (env_fs e) (INPUT_DIR s) None of
                  Inl ex \<Rightarrow> (w, Some ex)
                | Inr image_files \<Rightarrow>
                    (if image_files = [] then (w, None)
                     else process_images s e image_files w))))"

section \<open>An example run\<close>

text \<open>
  The default settings, and a run over a directory with two images and one other
  file.  Every image decodes to a one-row grey raster of two pixels, and the inference
  service reports one wall for it.  \<open>line_ok\<close> says whether \<open>cv2.line\<close> succeeds or
  raises.
\<close>

definition example_settings :: settings where
  "example_settings =
     \<lparr>MODEL_ID = ''cubicasa5k-2-qpmsa/6'', INPUT_DIR = ''./images'', OUTPUT_DIR = ''./out'',
      CONFIDENCE_THRESHOLD = Fin (1 / 5)\<rparr>"

definition example_env :: "bool \<Rightarrow> env" where
  "example_env line_ok =
     \<lparr>env_fs = (\<lambda>p. if p = ''./images'' then Directory [''a.png'', ''notes.txt'', ''b.JPG'']
                     else Missing),
      env_makedirs = (\<lambda>p. True),
      env_read_image = (\<lambda>p. Some ([1, 2], [7, 9])),
      env_infer_image = (\<lambda>p. Inr [[''class'' \<mapsto> PStr ''wall'', ''confidence'' \<mapsto> PFloat (Fin (9 / 10)),
                                    ''x'' \<mapsto> PInt 1, ''y'' \<mapsto> PInt 0,
                                    ''width'' \<mapsto> PInt 2, ''height'' \<mapsto> PInt 0]]),
      env_line = (\<lambda>shp d p q. if line_ok then Inr d else Inl CvError),
      env_open = (\<lambda>p. True),
      env_imwrite = (\<lambda>p. Inr True)\<rparr>"

definition empty_world :: world where
  "empty_world = \<lparr>w_heap = [], w_files = []\<rparr>"

section \<open>Notions of the specification\<close>




text \<open>The identifiers \<open>w1\<close>, \<open>w2\<close>, ..., \<open>wK\<close>.\<close>

definition wall_ids :: "nat \<Rightarrow> string list" where
  "wall_ids K = map (\<lambda>n. ''w'' @ str_of_nat n) [1 ..< Suc K]"

section \<open>Basic facts\<close>

lemma bind_exn_Inl [simp]: "bind_exn (Inl e) f = Inl e"
  by (simp add: bind_exn_def)

lemma bind_exn_Inr [simp]: "bind_exn (Inr v) f = f v"
  by (simp add: bind_exn_def)

lemma bind_exn_eq_Inr: "bind_exn m f = Inr r \<longleftrightarrow> (\<exists>v. m = Inr v \<and> f v = Inr r)"
  by (cases m) simp_all

lemma bind_exn_eq_Inl: "bind_exn m f = Inl e \<longleftrightarrow> m = Inl e \<or> (\<exists>v. m = Inr v \<and> f v = Inl e)"
  by (cases m) simp_all

lemma bind_exn_assoc: "bind_exn (bind_exn m f) g = bind_exn m (\<lambda>v. bind_exn (f v) g)"
  by (cases m) simp_all


lemma py_int_error: "py_int v = Inl e \<Longrightarrow> e = OverflowError \<or> e = ValueError"
  by (cases v) auto

lemma py_float_error: "py_float v = Inl e \<Longrightarrow> e = TypeError \<or> e = ValueError"
  by (cases v) (auto split: option.splits)

subsection \<open>The decimal rendering is injective\<close>

lemma digit_char_inj: "d < 10 \<Longrightarrow> d' < 10 \<Longrightarrow> digit_char d = digit_char d' \<Longrightarrow> d = d'"
proof -
  assume a: "d < 10" "d' < 10" "digit_char d = digit_char d'"
  have dist: "distinct ''0123456789''" by simp
  have len: "length ''0123456789'' = 10" by simp
  from a show "d = d'"
    unfolding digit_char_def using nth_eq_iff_index_eq [OF dist, of d d'] len by simp
qed

lemma str_of_nat_nonempty: "str_of_nat n \<noteq> []"
  by (subst str_of_nat.simps) simp

lemma str_of_nat_inj: "str_of_nat m = str_of_nat n \<Longrightarrow> m = n"
proof (induction m arbitrary: n rule: str_of_nat.induct)
  case (1 m)
  show ?case
  proof (cases "m < 10")
    case m: True
    show ?thesis
    proof (cases "n < 10")
      case True
      with m "1.prems" show ?thesis
        by (simp add: str_of_nat.simps [of m] str_of_nat.simps [of n] digit_char_inj)
    next
      case False
      with m "1.prems" show ?thesis
        using str_of_nat_nonempty [of "n div 10"]
        by (simp add: str_of_nat.simps [of m] str_of_nat.simps [of n])
    qed
  next
    case m: False
    show ?thesis
    proof (cases "n < 10")
      case True
      with m "1.prems" show ?thesis
        using str_of_nat_nonempty [of "m div 10"]
        by (simp add: str_of_nat.simps [of m] str_of_nat.simps [of n])
    next
      case False
      with m "1.prems" have eq: "str_of_nat (m div 10) = str_of_nat (n div 10)"
        and dg: "digit_char (m mod 10) = digit_char (n mod 10)"
        by (simp_all add: str_of_nat.simps [of m] str_of_nat.simps [of n])
      from "1.IH" [OF m eq] have q: "m div 10 = n div 10" .
      from dg have r: "m mod 10 = n mod 10"
        by (intro digit_char_inj) simp_all
      from q r show ?thesis
        by (metis div_mult_mod_eq)
    qed
  qed
qed

lemma wall_ids_distinct: "distinct (wall_ids K)"
  unfolding wall_ids_def
  by (rule iffD2 [OF distinct_map]) (auto simp: inj_on_def dest: str_of_nat_inj)

lemma wall_ids_Suc: "wall_ids (Suc K) = wall_ids K @ [''w'' @ str_of_nat (Suc K)]"
  by (simp add: wall_ids_def)

section \<open>Facts about the extractor loop\<close>

lemma try_body_result:
  "try_body p thr st = Inr st' \<Longrightarrow>
     st' = st \<or>
     (\<exists>pts c. \<not> flt c thr \<and>
        st' = st\<lparr>walls := walls st @
                   [\<lparr>ident = ''w'' @ str_of_nat (wall_id st), points = pts, confidence = c\<rparr>],
                 wall_id := wall_id st + 1\<rparr>)"
  unfolding try_body_def Let_def
  by (auto simp: bind_exn_eq_Inr split: if_splits)

lemma try_body_error:
  "try_body p thr st = Inl e \<Longrightarrow> e = TypeError \<or> e = ValueError \<or> e = OverflowError"
  unfolding try_body_def Let_def bbox_to_wall_line_def
  by (auto simp: bind_exn_eq_Inl split: if_splits dest: py_float_error py_int_error)

lemma loop_body_error: "loop_body p thr st = Inl e \<Longrightarrow> e = OverflowError"
  unfolding loop_body_def
  by (auto split: sum.splits if_splits dest: try_body_error)

lemma loop_body_result:
  "loop_body p thr st = Inr st' \<Longrightarrow>
     walls st' = walls st \<and> wall_id st' = wall_id st \<or>
     (\<exists>pts c. \<not> flt c thr \<and> st' = st\<lparr>walls := walls st @
                   [\<lparr>ident = ''w'' @ str_of_nat (wall_id st), points = pts, confidence = c\<rparr>],
                 wall_id := wall_id st + 1\<rparr>)"
proof (cases "try_body p thr st")
  case (Inl e)
  assume "loop_body p thr st = Inr st'"
  with Inl show ?thesis
    by (auto simp: loop_body_def split: if_splits)
next
  case (Inr s)
  assume "loop_body p thr st = Inr st'"
  with Inr have "try_body p thr st = Inr st'"
    by (simp add: loop_body_def)
  from try_body_result [OF this] show ?thesis by auto
qed

lemma loop_body_ids:
  assumes "loop_body p thr st = Inr st'"
    and "wall_id st = Suc (length (walls st))"
    and "map ident (walls st) = wall_ids (length (walls st))"
  shows "wall_id st' = Suc (length (walls st')) \<and> map ident (walls st') = wall_ids (length (walls st'))"
  using loop_body_result [OF assms(1)] assms(2,3)
  by (auto simp: wall_ids_Suc)

lemma extract_walls_loop_ids:
  "extract_walls_loop ps thr st = Inr st' \<Longrightarrow>
   wall_id st = Suc (length (walls st)) \<Longrightarrow>
   map ident (walls st) = wall_ids (length (walls st)) \<Longrightarrow>
   wall_id st' = Suc (length (walls st')) \<and> map ident (walls st') = wall_ids (length (walls st'))"
proof (induction ps arbitrary: st)
  case Nil
  then show ?case by simp
next
  case (Cons p ps)
  from Cons.prems(1) obtain st1 where b: "loop_body p thr st = Inr st1"
    and l: "extract_walls_loop ps thr st1 = Inr st'"
    by (auto simp: bind_exn_eq_Inr)
  from loop_body_ids [OF b Cons.prems(2,3)] Cons.IH [OF l] show ?case by blast
qed

lemma extract_walls_loop_error:
  "extract_walls_loop ps thr st = Inl e \<Longrightarrow> e = OverflowError"
proof (induction ps arbitrary: st)
  case Nil
  then show ?case by simp
next
  case (Cons p ps)
  then show ?case
    by (auto simp: bind_exn_eq_Inl dest: loop_body_error)
qed












section \<open>Facts about lowercasing and suffixes\<close>






lemma endswith_suffix: "endswith s ext \<longleftrightarrow> suffix ext s"
  unfolding endswith_def suffix_def
  by (metis append_eq_conv_conj append_take_drop_id diff_add_inverse2 length_append length_drop le_add2)



section \<open>Facts about the colour conversions\<close>

text \<open>
  Pixel by pixel: \<open>gray_to_bgr\<close> gives each of the three channels the grey value,
  \<open>bgra_to_bgr\<close> keeps the first three channels of each pixel and drops the fourth.
\<close>

lemma gray_to_bgr_nth: "i < length d \<Longrightarrow> k < 3 \<Longrightarrow> gray_to_bgr d ! (3 * i + k) = d ! i"
proof (induction d arbitrary: i)
  case Nil
  then show ?case by simp
next
  case (Cons v d)
  show ?case
  proof (cases i)
    case 0
    with Cons.prems show ?thesis
      by (simp add: gray_to_bgr_def nth_Cons' )
  next
    case (Suc j)
    with Cons.prems have "gray_to_bgr d ! (3 * j + k) = d ! j"
      using Cons.IH [of j] by simp
    moreover have "3 * i + k = Suc (Suc (Suc (3 * j + k)))"
      using Suc by simp
    ultimately show ?thesis
      using Suc by (simp add: gray_to_bgr_def)
  qed
qed

lemma gray_to_bgr_length: "length (gray_to_bgr d) = 3 * length d"
  by (induction d) (simp_all add: gray_to_bgr_def)

lemma bgra_to_bgr_nth:
  "4 * i + 3 < length d \<Longrightarrow> k < 3 \<Longrightarrow> bgra_to_bgr d ! (3 * i + k) = d ! (4 * i + k)"
proof (induction d arbitrary: i rule: bgra_to_bgr.induct)
  case (1 b g r a rest)
  show ?case
  proof (cases i)
    case 0
    with "1.prems" show ?thesis
      by (cases k) (auto simp: nth_Cons' )
  next
    case (Suc j)
    with "1.prems" have ih: "bgra_to_bgr rest ! (3 * j + k) = rest ! (4 * j + k)"
      using "1.IH" [of j] by simp
    have idx: "3 * i + k = Suc (Suc (Suc (3 * j + k)))" "4 * i + k = Suc (Suc (Suc (Suc (4 * j + k))))"
      using Suc by simp_all
    show ?thesis
      unfolding idx using ih by simp
  qed
qed simp_all

lemma bgra_to_bgr_length: "length (bgra_to_bgr d) = 3 * (length d div 4)"
  by (induction d rule: bgra_to_bgr.induct) simp_all

section \<open>Properties of the box-to-line heuristic and the wall extractor\<close>






text \<open>
  C7.  For every input, \<open>extract_walls\<close> either returns walls whose identifiers are
  exactly \<open>w1\<close>, ..., \<open>wK\<close> in output order, \<open>K\<close> the number of walls returned, and
  pairwise distinct, or it raises \<open>OverflowError\<close> and returns nothing.
\<close>

theorem extract_walls_ids:
  "(case extract_walls predictions thr of
      Inr ws \<Rightarrow> map ident ws = wall_ids (length ws) \<and> distinct (map ident ws)
    | Inl e \<Rightarrow> e = OverflowError)"
proof (cases "extract_walls_run predictions thr")
  case (Inl e)
  then show ?thesis
    using extract_walls_loop_error [of predictions thr _ e]
    by (simp add: extract_walls_def extract_walls_run_def)
next
  case (Inr st)
  then have "map ident (walls st) = wall_ids (length (walls st))"
    using extract_walls_loop_ids [of predictions thr _ st]
    by (simp add: extract_walls_run_def wall_ids_def)
  with Inr show ?thesis
    using wall_ids_distinct [of "length (walls st)"]
    by (simp add: extract_walls_def)
qed

theorem extract_walls_ids_witness:
  "extract_walls
     [[''class'' \<mapsto> PStr ''door'', ''confidence'' \<mapsto> PFloat (Fin (9 / 10))],
      [''class'' \<mapsto> PStr ''wall'', ''confidence'' \<mapsto> PFloat (Fin (9 / 10)),
       ''x'' \<mapsto> PInt 50, ''y'' \<mapsto> PInt 50, ''width'' \<mapsto> PInt 100, ''height'' \<mapsto> PInt 10],
      [''class'' \<mapsto> PStr ''wall'', ''confidence'' \<mapsto> PFloat (Fin (1 / 10))],
      [''class'' \<mapsto> PStr ''Wall'', ''confidence'' \<mapsto> PFloat (Fin (1 / 2)),
       ''x'' \<mapsto> PInt 50, ''y'' \<mapsto> PInt 50, ''width'' \<mapsto> PInt 20, ''height'' \<mapsto> PInt 20]]
     (Fin (1 / 5)) =
   Inr [\<lparr>ident = ''w1'', points = [(0, 50), (100, 50)], confidence = Fin (9 / 10)\<rparr>,
        \<lparr>ident = ''w2'', points = [(40, 40), (60, 40), (60, 60), (40, 60)], confidence = Fin (1 / 2)\<rparr>] \<and>
   [''w1'', ''w2''] = wall_ids 2"
proof -
  let ?ps = "[[''class'' \<mapsto> PStr ''door'', ''confidence'' \<mapsto> PFloat (Fin (9 / 10))],
      [''class'' \<mapsto> PStr ''wall'', ''confidence'' \<mapsto> PFloat (Fin (9 / 10)),
       ''x'' \<mapsto> PInt 50, ''y'' \<mapsto> PInt 50, ''width'' \<mapsto> PInt 100, ''height'' \<mapsto> PInt 10],
      [''class'' \<mapsto> PStr ''wall'', ''confidence'' \<mapsto> PFloat (Fin (1 / 10))],
      [''class'' \<mapsto> PStr ''Wall'', ''confidence'' \<mapsto> PFloat (Fin (1 / 2)),
       ''x'' \<mapsto> PInt 50, ''y'' \<mapsto> PInt 50, ''width'' \<mapsto> PInt 20, ''height'' \<mapsto> PInt 20]]"
  have e: "extract_walls ?ps (Fin (1 / 5)) =
   Inr [\<lparr>ident = ''w1'', points = [(0, 50), (100, 50)], confidence = Fin (9 / 10)\<rparr>,
        \<lparr>ident = ''w2'', points = [(40, 40), (60, 40), (60, 60), (40, 60)], confidence = Fin (1 / 2)\<rparr>]"
    by code_simp
  from extract_walls_ids [of ?ps "Fin (1 / 5)"] show ?thesis
    unfolding e by (simp add: numeral_2_eq_2)
qed






text \<open>
  C4.  A prediction that is kept and has a coordinate that is not finite, the string
  \<open>inf\<close> or the float infinity, makes \<open>extract_walls\<close> raise \<open>OverflowError\<close>: the
  conversion \<open>int()\<close> of a corner raises an exception that the \<open>except\<close> clause does not
  name.  The wall of the valid prediction before it is lost with the call.
\<close>

theorem extract_walls_overflow_escapes:
  "extract_walls
     [[''class'' \<mapsto> PStr ''wall'', ''confidence'' \<mapsto> PFloat (Fin (9 / 10)),
       ''x'' \<mapsto> PInt 50, ''y'' \<mapsto> PInt 50, ''width'' \<mapsto> PInt 100, ''height'' \<mapsto> PInt 10]]
     (Fin (1 / 5)) =
     Inr [\<lparr>ident = ''w1'', points = [(0, 50), (100, 50)], confidence = Fin (9 / 10)\<rparr>] \<and>
   extract_walls
     [[''class'' \<mapsto> PStr ''wall'', ''confidence'' \<mapsto> PFloat (Fin (9 / 10)),
       ''x'' \<mapsto> PInt 50, ''y'' \<mapsto> PInt 50, ''width'' \<mapsto> PInt 100, ''height'' \<mapsto> PInt 10],
      [''class'' \<mapsto> PStr ''wall'', ''confidence'' \<mapsto> PFloat (Fin (9 / 10)),
       ''x'' \<mapsto> PStr ''inf'', ''y'' \<mapsto> PInt 50, ''width'' \<mapsto> PInt 100, ''height'' \<mapsto> PInt 10]]
     (Fin (1 / 5)) =
     Inl OverflowError \<and>
   extract_walls
     [[''class'' \<mapsto> PStr ''wall'', ''confidence'' \<mapsto> PFloat (Fin (9 / 10)),
       ''x'' \<mapsto> PFloat PInf, ''y'' \<mapsto> PInt 50, ''width'' \<mapsto> PInt 100, ''height'' \<mapsto> PInt 10]]
     (Fin (1 / 5)) =
     Inl OverflowError"
  by code_simp

section \<open>Properties of file discovery\<close>



section \<open>Properties of the colour conversion\<close>




section \<open>Properties of the orchestrator\<close>

text \<open>
  C1.  Whatever source name, shape, model identifier and walls the orchestrator passes,
  the record it builds serialises to a \<open>meta\<close> object with the two entries \<open>source\<close>
  and \<open>shape\<close>: the model identifier is no field of \<open>Metadata\<close> and is dropped by the
  validation.  So the run of \<open>process_single_image\<close> on the first image of the example
  writes the JSON file \<open>./out/a.json\<close> without a \<open>model_id\<close>.
\<close>

theorem process_single_image_meta_without_model_id:
  "bind_exn (FloorPlanResult_init
               [(''source'', JStr src), (''shape'', JArr [JInt hgt, JInt wd]), (''model_id'', JStr mid)]
               ws)
     (\<lambda>result. Inr (model_dump result)) =
     Inr (JObj [(''meta'', JObj [(''source'', JStr src), (''shape'', JArr [JInt hgt, JInt wd])]),
                (''walls'', JArr (map Wall_dump ws))]) \<and>
   process_single_image example_settings (example_env True) ''./images/a.png'' empty_world =
     (\<lparr>w_heap = [[7, 9], [7, 7, 7, 9, 9, 9], [7, 7, 7, 9, 9, 9]],
       w_files =
         [(''./out/a.json'',
           JsonDoc (JObj
             [(''meta'', JObj [(''source'', JStr ''a.png''), (''shape'', JArr [JInt 1, JInt 2])]),
              (''walls'', JArr [JObj [(''id'', JStr ''w1''),
                                     (''points'', JArr [JArr [JInt 0, JInt 0], JArr [JInt 2, JInt 0]]),
                                     (''confidence'', JFloat (Fin (9 / 10)))]])])),
          (''./out/debug/a_vis.png'', PngImage [1, 2, 3] [7, 7, 7, 9, 9, 9])]\<rparr>, None)"
proof
  show "bind_exn (FloorPlanResult_init
               [(''source'', JStr src), (''shape'', JArr [JInt hgt, JInt wd]), (''model_id'', JStr mid)]
               ws)
     (\<lambda>result. Inr (model_dump result)) =
     Inr (JObj [(''meta'', JObj [(''source'', JStr src), (''shape'', JArr [JInt hgt, JInt wd])]),
                (''walls'', JArr (map Wall_dump ws))])"
    by (simp add: FloorPlanResult_init_def Metadata_validate_def model_dump_def Metadata_dump_def)
  show "process_single_image example_settings (example_env True) ''./images/a.png'' empty_world =
     (\<lparr>w_heap = [[7, 9], [7, 7, 7, 9, 9, 9], [7, 7, 7, 9, 9, 9]],
       w_files =
         [(''./out/a.json'',
           JsonDoc (JObj
             [(''meta'', JObj [(''source'', JStr ''a.png''), (''shape'', JArr [JInt 1, JInt 2])]),
              (''walls'', JArr [JObj [(''id'', JStr ''w1''),
                                     (''points'', JArr [JArr [JInt 0, JInt 0], JArr [JInt 2, JInt 0]]),
                                     (''confidence'', JFloat (Fin (9 / 10)))]])])),
          (''./out/debug/a_vis.png'', PngImage [1, 2, 3] [7, 7, 7, 9, 9, 9])]\<rparr>, None)"
    by code_simp
qed

text \<open>
  C2.  When \<open>cv2.line\<close> raises while the overlay of the first image is drawn, \<open>main\<close>
  ends with that exception: no JSON file is written for the first image and the second
  image is not processed.  With a \<open>cv2.line\<close> that succeeds the same run writes the JSON
  file and the debug image of both images.
\<close>

theorem main_overlay_failure_ends_batch:
  "main example_settings (example_env False) empty_world =
     (\<lparr>w_heap = [[7, 9], [7, 7, 7, 9, 9, 9]], w_files = []\<rparr>, Some CvError) \<and>
   map fst (w_files (fst (main example_settings (example_env True) empty_world))) =
     [''./out/a.json'', ''./out/debug/a_vis.png'', ''./out/b.json'', ''./out/debug/b_vis.png''] \<and>
   snd (main example_settings (example_env True) empty_world) = None"
  by code_simp

end
